theory Spec2Isabelle
  imports Complex_Main
begin

section \<open>The wave event form of the EEG viewer\<close>

text \<open>
  A shallow embedding of \<^verbatim>\<open>eeg_viewer/static/js/wave_event_form.js\<close>: the class
  \<^verbatim>\<open>WaveEventForm\<close>, its four private fields, the part of the page it reads and
  writes, and the actions it hands to the dispatcher.

  Conventions of the embedding.
  \<^item> A JavaScript \<^verbatim>\<open>number\<close> is a \<open>real\<close>: times and pixel positions are taken
    to be finite, and subtraction is exact. \<^verbatim>\<open>NaN\<close> and the infinities are not
    represented.
  \<^item> A field of type \<^verbatim>\<open>?number\<close> is a \<open>real option\<close>; \<^verbatim>\<open>x == null\<close> is
    \<open>x = None\<close> (the number 0 is not null).
  \<^item> A \<^verbatim>\<open>Set<string>\<close> is the list of its members in insertion order, which is the
    order \<^verbatim>\<open>Array.from\<close> returns them in.
  \<^item> The elements the methods look up by a fixed id are taken to be on the page.
  \<^item> \<^verbatim>\<open>document.querySelector\<close> belongs to the page. \<^verbatim>\<open>handleGraphPointClick\<close>
    takes it as a parameter: a function from the selector and the labels on the
    page to the position of the label found, to null, or to the error thrown.
  \<^item> \<^verbatim>\<open>formatter.formatTime\<close> and \<^verbatim>\<open>montages.channelIndexesToNames\<close> live in other
    files; the methods that call them take them as parameters.
\<close>

subsection \<open>Data\<close>

text \<open>
  The payload of the only action the form sends:
  \<^verbatim>\<open>{actionType: ADD_WAVE_EVENT, data: {labelText, startTime, duration, channelList}}\<close>,
  with the four fields of \<^verbatim>\<open>data\<close> in this order.
\<close>

datatype action = ADD_WAVE_EVENT string real real "string list"

text \<open>
  A \<^verbatim>\<open>label\<close> element under \<^verbatim>\<open>#wave-event-channels\<close>: its \<^verbatim>\<open>for\<close> attribute,
  whether its checkbox shows as checked, and whether it sits inside the container
  \<^verbatim>\<open>#wave-event-channels-checkboxes\<close> that \<^verbatim>\<open>handleChannelNames\<close> rebuilds.
\<close>

record label =
  htmlFor :: string
  checked :: bool
  inContainer :: bool

text \<open>
  What \<^verbatim>\<open>document.querySelector\<close> throws for a selector that does not parse, and
  the lookup itself: \<open>Inr (Some i)\<close> is the label at position \<open>i\<close> of the
  page's labels, \<open>Inr None\<close> is null.
\<close>

datatype error = SyntaxError

type_synonym querySelector = "string \<Rightarrow> label list \<Rightarrow> error + nat option"

text \<open>The store snapshot, as far as the two listeners read it.\<close>

record graphPointClick =
  timeValue :: real
  channelName :: string
  xPos :: real
  yPos :: real

record store =
  graphPointClick :: graphPointClick
  absStart :: real
  channelIds :: "string list option"
  indexChannelMap :: "(string \<times> string) list option"

text \<open>
  The widget and its surroundings. The first four fields are the private fields of
  the class. The others are the page and the dispatcher:
  \<^item> \<open>formHidden\<close>: the form's class list holds \<^verbatim>\<open>hidden\<close>;
  \<^item> \<open>formLeft\<close>, \<open>formTop\<close>: the numbers \<open>n\<close> of the form's
    \<^verbatim>\<open>style.left\<close> and \<^verbatim>\<open>style.top\<close>, which are the strings \<^verbatim>\<open>`${n}px`\<close>;
  \<^item> \<open>offsetWidth\<close>, \<open>offsetHeight\<close>: the form's measured size;
    \<open>innerHeight\<close>: \<^verbatim>\<open>window.innerHeight\<close>;
  \<^item> \<open>startTimeInput\<close>, \<open>endTimeInput\<close>: the values of the two time inputs;
  \<^item> \<open>dropdownInnerHTML\<close>: the \<^verbatim>\<open>innerHTML\<close> of
    \<^verbatim>\<open>#wave-event-type-dropdown-text\<close>;
  \<^item> \<open>labels\<close>: the labels under \<^verbatim>\<open>#wave-event-channels\<close>, in document order;
  \<^item> \<open>dispatched\<close>: the actions passed to \<^verbatim>\<open>Dispatcher.sendAction\<close> so far,
    oldest first.
\<close>

record state =
  startTime :: "real option"
  endTime :: "real option"
  selectedChannels :: "string list"
  allChannels :: "string list"
  formHidden :: bool
  formLeft :: real
  formTop :: real
  offsetWidth :: real
  offsetHeight :: real
  innerHeight :: real
  startTimeInput :: string
  endTimeInput :: string
  dropdownInnerHTML :: string
  labels :: "label list"
  dispatched :: "action list"

subsection \<open>The operations of a JavaScript Set\<close>

definition setHas :: "string \<Rightarrow> string list \<Rightarrow> bool" where
  "setHas x xs = (x \<in> set xs)"

definition setAdd :: "string \<Rightarrow> string list \<Rightarrow> string list" where
  "setAdd x xs = (if setHas x xs then xs else xs @ [x])"

definition setDelete :: "string \<Rightarrow> string list \<Rightarrow> string list" where
  "setDelete x xs = removeAll x xs"

subsection \<open>Collaborators in \<^verbatim>\<open>utils\<close>\<close>

text \<open>
  Modelled from the spec: \<^verbatim>\<open>utils.toggleMDLCheckbox(label, checked)\<close>, which is not in
  this file. The spec has it set the checkbox's visual checked state to the flag.
\<close>

definition toggleMDLCheckbox :: "label \<Rightarrow> bool \<Rightarrow> label" where
  "toggleMDLCheckbox l flag = l\<lparr>checked := flag\<rparr>"

text \<open>
  Modelled from the spec: \<^verbatim>\<open>utils.addMDLCheckbox(container, id, text, onChange)\<close>,
  which is not in this file. It appends a fresh, unchecked checkbox with its label
  to the container.
\<close>

definition addMDLCheckbox :: "string \<Rightarrow> label" where
  "addMDLCheckbox checkboxId = \<lparr>htmlFor = checkboxId, checked = False, inContainer = True\<rparr>"

subsection \<open>The methods\<close>

definition defaultFormWidth :: real where
  "defaultFormWidth = 330"

definition defaultFormHeight :: real where
  "defaultFormHeight = 487"

text \<open>\<^verbatim>\<open>new WaveEventForm()\<close> on a page: the four fields are initialised.\<close>

definition constructor :: "state \<Rightarrow> state" where
  "constructor page =
     page\<lparr>startTime := None, endTime := None, selectedChannels := [], allChannels := []\<rparr>"

text \<open>\<^verbatim>\<open>a || b\<close> on numbers: \<open>b\<close> when \<open>a\<close> is 0.\<close>

definition orDefault :: "real \<Rightarrow> real \<Rightarrow> real" where
  "orDefault a b = (if a = 0 then b else a)"

text \<open>
  \<^verbatim>\<open>setWaveEventFormPosition_\<close> (lines 90 to 112): the form goes left of the click;
  if that leaves the window, right of and below the click; if the top then passes
  the vertical limit, above the click. \<open>movedLeft\<close> is the source's name for the
  second placement.
\<close>

definition setWaveEventFormPosition :: "real \<Rightarrow> real \<Rightarrow> state \<Rightarrow> state" where
  "setWaveEventFormPosition x y s =
     (let formWidth = orDefault (offsetWidth s) defaultFormWidth;
          formHeight = orDefault (offsetHeight s) defaultFormHeight;
          left0 = x - formWidth - 20;
          movedLeft = (left0 < 0);
          left = (if movedLeft then x + 10 else left0);
          top0 = (if movedLeft then y + 80 else y);
          verticalLimit = innerHeight s - formHeight - 100;
          top = (if top0 > verticalLimit
                 then y - formHeight - (if movedLeft then 200 else 20)
                 else top0)
      in s\<lparr>formLeft := left, formTop := top\<rparr>)"

definition getChannelCheckboxId :: "string \<Rightarrow> string" where
  "getChannelCheckboxId name = ''wave-event-channel-'' @ name"

text \<open>
  The selector of line 132, \<^verbatim>\<open>`label[for="${this.getChannelCheckboxId_(channelName)}"]`\<close>:
  the channel name is spliced in as it is, between two double quotes.
\<close>

definition channelSelector :: "string \<Rightarrow> string" where
  "channelSelector name =
     ''label[for='' @ [CHR 0x22] @ getChannelCheckboxId name @ [CHR 0x22] @ '']''"

text \<open>
  \<^verbatim>\<open>utils.toggleMDLCheckbox(channelLabelElement, checked)\<close> on what the lookup of
  line 131 returned: the label at that position, or null. With null the page is
  left as it is; the caller has updated the selection by then.
\<close>

definition toggleLabelElement :: "nat option \<Rightarrow> bool \<Rightarrow> label list \<Rightarrow> label list" where
  "toggleLabelElement channelLabelElement flag ls =
     (case channelLabelElement of
        None \<Rightarrow> ls
      | Some i \<Rightarrow> if i < length ls then ls[i := toggleMDLCheckbox (ls ! i) flag] else ls)"

text \<open>
  The two closures of \<^verbatim>\<open>handleGraphPointClick\<close> (lines 134 to 142), with the two
  variables they capture.
\<close>

definition markChannelSelected :: "string \<Rightarrow> nat option \<Rightarrow> state \<Rightarrow> state" where
  "markChannelSelected name channelLabelElement s =
     s\<lparr>selectedChannels := setAdd name (selectedChannels s),
       labels := toggleLabelElement channelLabelElement True (labels s)\<rparr>"

definition markChannelUnselected :: "string \<Rightarrow> nat option \<Rightarrow> state \<Rightarrow> state" where
  "markChannelUnselected name channelLabelElement s =
     s\<lparr>selectedChannels := setDelete name (selectedChannels s),
       labels := toggleLabelElement channelLabelElement False (labels s)\<rparr>"

text \<open>
  \<^verbatim>\<open>handleGraphPointClick\<close> (lines 118 to 166). The lookup of the channel's label
  (lines 131 and 132) comes before the three branches and before any write: when it
  throws, the method throws and nothing has changed. \<open>isFirstClick\<close> is the case
  \<open>None\<close>; in the case \<open>Some t0\<close>, \<open>isSecondClick\<close> is \<open>endTime s = None\<close>, and
  the comparison with the start time is made only there, as the source's \<^verbatim>\<open>&&\<close>
  does.
\<close>

definition handleGraphPointClick ::
  "(real \<Rightarrow> bool \<Rightarrow> string) \<Rightarrow> querySelector \<Rightarrow> store \<Rightarrow> state \<Rightarrow> error + state" where
  "handleGraphPointClick formatTime querySelector st s =
     (let click = graphPointClick st;
          prettyTime = formatTime (absStart st + timeValue click) True
      in case querySelector (channelSelector (channelName click)) (labels s) of
           Inl e \<Rightarrow> Inl e
         | Inr channelLabelElement \<Rightarrow>
             Inr (case startTime s of
                    None \<Rightarrow>
                      markChannelSelected (channelName click) channelLabelElement
                        ((setWaveEventFormPosition (xPos click) (yPos click)
                            (s\<lparr>startTimeInput := prettyTime, endTimeInput := ''''\<rparr>))
                         \<lparr>formHidden := False, startTime := Some (timeValue click)\<rparr>)
                  | Some t0 \<Rightarrow>
                      if endTime s = None \<and> timeValue click > t0
                      then markChannelSelected (channelName click) channelLabelElement
                             (s\<lparr>endTimeInput := prettyTime, endTime := Some (timeValue click)\<rparr>)
                      else if setHas (channelName click) (selectedChannels s)
                      then markChannelUnselected (channelName click) channelLabelElement s
                      else markChannelSelected (channelName click) channelLabelElement s))"

text \<open>
  The \<^verbatim>\<open>innerHTML\<close> of an element that holds one text node: the text, with the
  four characters the serialisation of HTML escapes replaced by their references.
\<close>

fun serializeText :: "string \<Rightarrow> string" where
  "serializeText [] = []"
| "serializeText (c # cs) =
     (if c = CHR ''&'' then ''&amp;''
      else if c = CHR ''<'' then ''&lt;''
      else if c = CHR ''>'' then ''&gt;''
      else if c = CHR 0xA0 then ''&nbsp;''
      else [c]) @ serializeText cs"

text \<open>
  \<^verbatim>\<open>selectType\<close> (lines 173 to 176): \<^verbatim>\<open>dropdown.textContent = type\<close> leaves one
  text node in the type selector, the label it displays.
\<close>

definition selectType :: "string \<Rightarrow> state \<Rightarrow> state" where
  "selectType label s = s\<lparr>dropdownInnerHTML := serializeText label\<rparr>"

text \<open>
  \<^verbatim>\<open>toggleAllChannelCheckboxes_\<close> (lines 243 to 247): every label under
  \<^verbatim>\<open>#wave-event-channels\<close> is set to the flag.
\<close>

definition toggleAllChannelCheckboxes :: "bool \<Rightarrow> state \<Rightarrow> state" where
  "toggleAllChannelCheckboxes flag s =
     s\<lparr>labels := map (\<lambda>l. toggleMDLCheckbox l flag) (labels s)\<rparr>"

text \<open>\<^verbatim>\<open>close\<close> (lines 181 to 197).\<close>

definition close :: "state \<Rightarrow> state" where
  "close s =
     (toggleAllChannelCheckboxes False (s\<lparr>startTimeInput := '''', endTimeInput := ''''\<rparr>))
     \<lparr>startTime := None, endTime := None, selectedChannels := [], formHidden := True\<rparr>"

text \<open>
  \<^verbatim>\<open>save\<close> (lines 202 to 226): two early returns, then one action for the
  dispatcher, built before \<^verbatim>\<open>close\<close> empties the selection.
\<close>

definition save :: "state \<Rightarrow> state" where
  "save s =
     (case startTime s of
        None \<Rightarrow> s
      | Some t0 \<Rightarrow>
          (let t1 = (case endTime s of None \<Rightarrow> t0 | Some e \<Rightarrow> e)
           in if t1 < t0 then s
              else close (s\<lparr>dispatched := dispatched s @
                     [ADD_WAVE_EVENT (dropdownInnerHTML s) t0 (t1 - t0) (selectedChannels s)]\<rparr>)))"

text \<open>
  \<^verbatim>\<open>toggleAllChannels\<close> (lines 253 to 263); the flag is \<^verbatim>\<open>event.target.checked\<close>.
\<close>

definition toggleAllChannels :: "bool \<Rightarrow> state \<Rightarrow> state" where
  "toggleAllChannels flag s =
     toggleAllChannelCheckboxes flag
       (s\<lparr>selectedChannels :=
            (if flag then foldl (\<lambda>sel name. setAdd name sel) (selectedChannels s) (allChannels s)
             else [])\<rparr>)"

text \<open>
  \<^verbatim>\<open>handleChannelNames\<close> (lines 270 to 302). A missing \<^verbatim>\<open>channelIds\<close> or
  \<^verbatim>\<open>indexChannelMap\<close> is \<open>None\<close>; an empty array is present. The old container
  goes with its labels, and the new one, appended last, gets one unchecked
  checkbox for each name.
\<close>

definition handleChannelNames ::
  "(string list \<Rightarrow> (string \<times> string) list \<Rightarrow> string list) \<Rightarrow> store \<Rightarrow> state \<Rightarrow> state" where
  "handleChannelNames channelIndexesToNames st s =
     (case channelIds st of
        None \<Rightarrow> s
      | Some ids \<Rightarrow>
          (case indexChannelMap st of
             None \<Rightarrow> s
           | Some m \<Rightarrow>
               (let names = channelIndexesToNames ids m
                in s\<lparr>allChannels := names,
                     labels := filter (\<lambda>l. \<not> inContainer l) (labels s) @
                               map (\<lambda>name. addMDLCheckbox (getChannelCheckboxId name)) names\<rparr>)))"

subsection \<open>Sequences of calls\<close>

text \<open>
  A call of one of the five methods that change the fields, and the state after a
  list of such calls on a widget constructed on a page. A click whose label lookup
  throws leaves the widget as it was: the exception goes to the store that called
  the listener.
\<close>

datatype event =
    GraphPointClick store
  | Save
  | Close
  | ToggleAllChannels bool
  | ChannelNames store

fun step ::
  "(real \<Rightarrow> bool \<Rightarrow> string) \<Rightarrow> (string list \<Rightarrow> (string \<times> string) list \<Rightarrow> string list) \<Rightarrow>
   querySelector \<Rightarrow> state \<Rightarrow> event \<Rightarrow> state" where
  "step ft cn qs s (GraphPointClick st) =
     (case handleGraphPointClick ft qs st s of Inl e \<Rightarrow> s | Inr s' \<Rightarrow> s')"
| "step ft cn qs s Save = save s"
| "step ft cn qs s Close = close s"
| "step ft cn qs s (ToggleAllChannels flag) = toggleAllChannels flag s"
| "step ft cn qs s (ChannelNames st) = handleChannelNames cn st s"

definition run ::
  "(real \<Rightarrow> bool \<Rightarrow> string) \<Rightarrow> (string list \<Rightarrow> (string \<times> string) list \<Rightarrow> string list) \<Rightarrow>
   querySelector \<Rightarrow> event list \<Rightarrow> state \<Rightarrow> state" where
  "run ft cn qs evs page = foldl (step ft cn qs) (constructor page) evs"

text \<open>The end time \<^verbatim>\<open>save\<close> works with: \<^verbatim>\<open>endTime_\<close>, or the start time when it is null.\<close>

definition effectiveEndTime :: "state \<Rightarrow> real option" where
  "effectiveEndTime s = (case endTime s of None \<Rightarrow> startTime s | Some e \<Rightarrow> Some e)"

definition timesOrdered :: "state \<Rightarrow> bool" where
  "timesOrdered s =
     (case endTime s of
        None \<Rightarrow> True
      | Some e \<Rightarrow> (case startTime s of None \<Rightarrow> False | Some b \<Rightarrow> b < e))"

subsection \<open>A page to run the methods on\<close>

text \<open>
  A page before any click: the form hidden and so measured as 0 by 0, a window 800
  pixels high, the label \<^verbatim>\<open>SZ\<close> in the type selector, no channel checkbox yet.
\<close>

definition hiddenFormPage :: state where
  "hiddenFormPage =
     \<lparr>startTime = None, endTime = None, selectedChannels = [], allChannels = [],
      formHidden = True, formLeft = 0, formTop = 0,
      offsetWidth = 0, offsetHeight = 0, innerHeight = 800,
      startTimeInput = '''', endTimeInput = '''', dropdownInnerHTML = ''SZ'',
      labels = [], dispatched = []\<rparr>"

definition clickAt :: "real \<Rightarrow> string \<Rightarrow> store" where
  "clickAt t name =
     \<lparr>graphPointClick = \<lparr>timeValue = t, channelName = name, xPos = 50, yPos = 100\<rparr>,
      absStart = 0, channelIds = None, indexChannelMap = None\<rparr>"

definition channelUpdate :: "string list \<Rightarrow> store" where
  "channelUpdate ids =
     \<lparr>graphPointClick = \<lparr>timeValue = 0, channelName = '''', xPos = 0, yPos = 0\<rparr>,
      absStart = 0, channelIds = Some ids, indexChannelMap = Some []\<rparr>"

text \<open>
  Stand-ins for the two collaborators, and a lookup for the page.

  \<open>domQuerySelector\<close> is \<^verbatim>\<open>document.querySelector\<close> on the selectors this widget
  builds. When the text between the two quotes has no double quote, backslash,
  line break or NUL, the selector is an attribute selector with that text as its
  value, and the lookup returns the first label whose \<^verbatim>\<open>for\<close> is that text, or
  null. A double quote in the text ends the attribute string early, and what
  follows it has to continue the selector; after \<^verbatim>\<open>a"b\<close> it does not, and the
  lookup throws a \<^verbatim>\<open>SyntaxError\<close>. The stand-in throws for every text that holds
  one of these characters, although a few of them (a backslash escape, a quote
  followed by the rest of a selector) still parse. It is used below on plain names
  and on \<^verbatim>\<open>a"b\<close> only; the general results take the lookup as a parameter.
\<close>

definition noFormat :: "real \<Rightarrow> bool \<Rightarrow> string" where
  "noFormat t pretty = ''''"

definition idsAsNames :: "string list \<Rightarrow> (string \<times> string) list \<Rightarrow> string list" where
  "idsAsNames ids m = ids"

fun stripPrefix :: "string \<Rightarrow> string \<Rightarrow> string option" where
  "stripPrefix [] ys = Some ys"
| "stripPrefix (x # xs) [] = None"
| "stripPrefix (x # xs) (y # ys) = (if x = y then stripPrefix xs ys else None)"

definition attributeText :: "string \<Rightarrow> string option" where
  "attributeText selector =
     (case stripPrefix (''label[for='' @ [CHR 0x22]) selector of
        None \<Rightarrow> None
      | Some r \<Rightarrow>
          (case stripPrefix (rev ([CHR 0x22] @ '']'')) (rev r) of
             None \<Rightarrow> None
           | Some v \<Rightarrow> Some (rev v)))"

definition plainText :: "string \<Rightarrow> bool" where
  "plainText v =
     list_all (\<lambda>c. c \<noteq> CHR 0x22 \<and> c \<noteq> CHR 0x5C \<and> c \<noteq> CHR 0x0A \<and> c \<noteq> CHR 0x0D
                  \<and> c \<noteq> CHR 0x0C \<and> c \<noteq> CHR 0x00) v"

fun firstLabelFor :: "string \<Rightarrow> label list \<Rightarrow> nat option" where
  "firstLabelFor v [] = None"
| "firstLabelFor v (l # ls) =
     (if htmlFor l = v then Some 0
      else (case firstLabelFor v ls of None \<Rightarrow> None | Some i \<Rightarrow> Some (Suc i)))"

definition domQuerySelector :: querySelector where
  "domQuerySelector selector ls =
     (case attributeText selector of
        None \<Rightarrow> Inl SyntaxError
      | Some v \<Rightarrow> if plainText v then Inr (firstLabelFor v ls) else Inl SyntaxError)"

text \<open>The channel name \<^verbatim>\<open>a"b\<close>.\<close>

definition quotedName :: string where
  "quotedName = [CHR ''a'', CHR 0x22, CHR ''b'']"

text \<open>
  A widget constructed on that page that has received the channels \<^verbatim>\<open>C3\<close> and
  \<^verbatim>\<open>C4\<close> and then the given calls.
\<close>

definition demo :: "event list \<Rightarrow> state" where
  "demo evs =
     run noFormat idsAsNames domQuerySelector
       (ChannelNames (channelUpdate [''C3'', ''C4'']) # evs) hiddenFormPage"

section \<open>Properties\<close>

subsection \<open>Sets as lists\<close>

lemma set_setAdd: "set (setAdd x xs) = insert x (set xs)"
  by (auto simp: setAdd_def setHas_def)

lemma set_setDelete: "set (setDelete x xs) = set xs - {x}"
  by (simp add: setDelete_def)

lemma set_foldl_setAdd:
  "set (foldl (\<lambda>sel name. setAdd name sel) xs ys) = set xs \<union> set ys"
  by (induction ys arbitrary: xs) (auto simp: set_setAdd)

subsection \<open>Evaluating the methods on a concrete page\<close>

lemmas eval_defs =
  run_def constructor_def hiddenFormPage_def clickAt_def channelUpdate_def
  handleGraphPointClick_def handleChannelNames_def save_def close_def toggleAllChannels_def
  toggleAllChannelCheckboxes_def toggleMDLCheckbox_def addMDLCheckbox_def Let_def
  markChannelSelected_def markChannelUnselected_def setWaveEventFormPosition_def
  orDefault_def defaultFormWidth_def defaultFormHeight_def setAdd_def setDelete_def setHas_def
  getChannelCheckboxId_def effectiveEndTime_def noFormat_def idsAsNames_def demo_def
  channelSelector_def toggleLabelElement_def domQuerySelector_def attributeText_def plainText_def
  quotedName_def selectType_def

subsection \<open>The two times stay ordered\<close>

lemma timesOrdered_cong:
  "startTime s' = startTime s \<Longrightarrow> endTime s' = endTime s \<Longrightarrow> timesOrdered s' = timesOrdered s"
  by (simp add: timesOrdered_def split: option.splits)

lemma timesOrdered_unset: "endTime s = None \<Longrightarrow> timesOrdered s"
  by (simp add: timesOrdered_def)

lemma timesOrdered_constructor: "timesOrdered (constructor page)"
  by (simp add: timesOrdered_unset constructor_def)

lemma timesOrdered_close: "timesOrdered (close s)"
  by (simp add: timesOrdered_unset close_def toggleAllChannelCheckboxes_def)

lemma timesOrdered_save: "timesOrdered s \<Longrightarrow> timesOrdered (save s)"
  by (simp add: save_def Let_def timesOrdered_close split: option.splits)

lemma timesOrdered_toggleAllChannels:
  "timesOrdered s \<Longrightarrow> timesOrdered (toggleAllChannels flag s)"
proof -
  have "timesOrdered (toggleAllChannels flag s) = timesOrdered s"
    by (rule timesOrdered_cong) (simp_all add: toggleAllChannels_def toggleAllChannelCheckboxes_def)
  then show "timesOrdered s \<Longrightarrow> timesOrdered (toggleAllChannels flag s)" by simp
qed

lemma timesOrdered_handleChannelNames:
  "timesOrdered s \<Longrightarrow> timesOrdered (handleChannelNames cn st s)"
proof -
  have "timesOrdered (handleChannelNames cn st s) = timesOrdered s"
    by (rule timesOrdered_cong) (simp_all add: handleChannelNames_def Let_def split: option.splits)
  then show "timesOrdered s \<Longrightarrow> timesOrdered (handleChannelNames cn st s)" by simp
qed

lemma markChannel_times:
  "startTime (markChannelSelected n el s) = startTime s"
  "endTime (markChannelSelected n el s) = endTime s"
  "startTime (markChannelUnselected n el s) = startTime s"
  "endTime (markChannelUnselected n el s) = endTime s"
  by (simp_all add: markChannelSelected_def markChannelUnselected_def)

lemma timesOrdered_handleGraphPointClick:
  assumes "timesOrdered s" and r: "handleGraphPointClick ft qs st s = Inr s'"
  shows "timesOrdered s'"
proof -
  from r obtain el where
    el: "qs (channelSelector (channelName (graphPointClick st))) (labels s) = Inr el"
    by (auto simp: handleGraphPointClick_def Let_def split: sum.splits)
  show ?thesis
  proof (cases "startTime s")
    case None
    with r el have "endTime s' = endTime s"
      by (auto simp: handleGraphPointClick_def Let_def markChannel_times
          setWaveEventFormPosition_def)
    moreover from None assms(1) have "endTime s = None"
      by (simp add: timesOrdered_def split: option.splits)
    ultimately show ?thesis by (simp add: timesOrdered_unset)
  next
    case (Some t0)
    show ?thesis
    proof (cases "endTime s = None \<and> timeValue (graphPointClick st) > t0")
      case True
      with Some r el have "startTime s' = Some t0"
        and "endTime s' = Some (timeValue (graphPointClick st))"
        by (auto simp: handleGraphPointClick_def Let_def markChannel_times)
      with True show ?thesis by (simp add: timesOrdered_def)
    next
      case False
      with Some r el have "startTime s' = startTime s" and "endTime s' = endTime s"
        by (auto simp: handleGraphPointClick_def Let_def markChannel_times)
      then have "timesOrdered s' = timesOrdered s" by (rule timesOrdered_cong)
      with assms(1) show ?thesis by simp
    qed
  qed
qed

lemma timesOrdered_step: "timesOrdered s \<Longrightarrow> timesOrdered (step ft cn qs s ev)"
  by (cases ev)
     (auto simp: timesOrdered_close timesOrdered_save timesOrdered_toggleAllChannels
        timesOrdered_handleChannelNames timesOrdered_handleGraphPointClick split: sum.splits)

lemma timesOrdered_foldl: "timesOrdered s \<Longrightarrow> timesOrdered (foldl (step ft cn qs) s evs)"
  by (induction evs arbitrary: s) (simp_all add: timesOrdered_step)

lemma timesOrdered_run: "timesOrdered (run ft cn qs evs page)"
  by (simp add: run_def timesOrdered_foldl timesOrdered_constructor)

lemma effectiveEndTime_ordered:
  assumes "timesOrdered s" and "startTime s = Some b"
  shows "\<exists>e. effectiveEndTime s = Some e \<and> b \<le> e"
  using assms by (auto simp: timesOrdered_def effectiveEndTime_def split: option.splits)

text \<open>
  C2. After any sequence of calls of \<^verbatim>\<open>handleGraphPointClick\<close>, \<^verbatim>\<open>save\<close>,
  \<^verbatim>\<open>close\<close>, \<^verbatim>\<open>toggleAllChannels\<close> and \<^verbatim>\<open>handleChannelNames\<close> on a freshly
  constructed widget, an end time that is set comes with a start time that is set
  and strictly smaller.
\<close>

theorem reachable_times_ordered:
  "endTime (run ft cn qs evs page) = Some e \<Longrightarrow>
     \<exists>b. startTime (run ft cn qs evs page) = Some b \<and> b < e"
  using timesOrdered_run [of ft cn qs evs page]
  by (auto simp: timesOrdered_def split: option.splits)

theorem reachable_times_ordered_witness:
  "endTime (demo [GraphPointClick (clickAt 1 ''C3''), GraphPointClick (clickAt 2 ''C4'')]) = Some 2
   \<and> startTime (demo [GraphPointClick (clickAt 1 ''C3''), GraphPointClick (clickAt 2 ''C4'')]) = Some 1"
proof -
  have h: "endTime (demo [GraphPointClick (clickAt 1 ''C3''), GraphPointClick (clickAt 2 ''C4'')]) = Some 2"
    by (simp add: eval_defs)
  from reachable_times_ordered [OF h [unfolded demo_def]] h show ?thesis
    by (simp add: eval_defs)
qed

subsection \<open>Saving\<close>

lemma save_sends:
  assumes "startTime s = Some t0" and "effectiveEndTime s = Some t1" and "\<not> t1 < t0"
  shows "save s = close (s\<lparr>dispatched := dispatched s @
            [ADD_WAVE_EVENT (dropdownInnerHTML s) t0 (t1 - t0) (selectedChannels s)]\<rparr>)"
  using assms by (auto simp: save_def effectiveEndTime_def Let_def split: option.splits)

lemma dispatched_close: "dispatched (close s) = dispatched s"
  by (simp add: close_def toggleAllChannelCheckboxes_def)

lemma save_on_run:
  assumes "startTime (run ft cn qs evs page) = Some t0"
  shows "\<exists>t1. effectiveEndTime (run ft cn qs evs page) = Some t1 \<and> \<not> t1 < t0
           \<and> (endTime (run ft cn qs evs page) = None \<longrightarrow> t1 - t0 = 0)
           \<and> save (run ft cn qs evs page) =
               close ((run ft cn qs evs page)\<lparr>dispatched := dispatched (run ft cn qs evs page) @
                 [ADD_WAVE_EVENT (dropdownInnerHTML (run ft cn qs evs page)) t0 (t1 - t0)
                    (selectedChannels (run ft cn qs evs page))]\<rparr>)"
proof -
  let ?r = "run ft cn qs evs page"
  from effectiveEndTime_ordered [OF timesOrdered_run assms]
  obtain t1 where e: "effectiveEndTime ?r = Some t1" and le: "t0 \<le> t1" by blast
  from le have n: "\<not> t1 < t0" by simp
  have z: "endTime ?r = None \<longrightarrow> t1 - t0 = 0"
    using assms e by (auto simp: effectiveEndTime_def)
  from save_sends [OF assms e n] e n z
  have "effectiveEndTime ?r = Some t1 \<and> \<not> t1 < t0
          \<and> (endTime ?r = None \<longrightarrow> t1 - t0 = 0)
          \<and> save ?r = close (?r\<lparr>dispatched := dispatched ?r @
                [ADD_WAVE_EVENT (dropdownInnerHTML ?r) t0 (t1 - t0) (selectedChannels ?r)]\<rparr>)"
    by simp
  then show ?thesis by (rule exI [of _ t1])
qed

lemma save_after_selectType:
  assumes "startTime s = Some t0" and "effectiveEndTime s = Some t1" and "\<not> t1 < t0"
  shows "dispatched (save (selectType label s)) = dispatched s @
           [ADD_WAVE_EVENT (serializeText label) t0 (t1 - t0) (selectedChannels s)]"
proof -
  have a: "startTime (selectType label s) = Some t0"
    using assms(1) by (simp add: selectType_def)
  have b: "effectiveEndTime (selectType label s) = Some t1"
    using assms(2) by (simp add: selectType_def effectiveEndTime_def split: option.splits)
  from save_sends [OF a b assms(3)] show ?thesis
    by (simp add: dispatched_close selectType_def)
qed

lemma serializeText_plain:
  "list_all (\<lambda>c. c \<noteq> CHR ''&'' \<and> c \<noteq> CHR ''<'' \<and> c \<noteq> CHR ''>'' \<and> c \<noteq> CHR 0xA0) label
   \<Longrightarrow> serializeText label = label"
  by (induction label) simp_all

text \<open>
  C1. On every run \<^verbatim>\<open>save()\<close> with a start time sends exactly one
  \<^verbatim>\<open>ADD_WAVE_EVENT\<close> action with the start time, the duration (0 after a single
  click) and the selected channels as a list, and then closes (\<open>save_on_run\<close>).
  The label in it is not always the label the type selector displays.
  \<^verbatim>\<open>selectType\<close> writes the label as text (line 175); \<^verbatim>\<open>save\<close> reads it back as
  \<^verbatim>\<open>innerHTML\<close> (line 214), which is the text with \<^verbatim>\<open>&\<close> and the angle brackets
  escaped. After \<^verbatim>\<open>selectType('A&B')\<close> and one click at time 7 on channel C3, the
  selector displays \<^verbatim>\<open>A&B\<close> and the action carries \<^verbatim>\<open>A&amp;B\<close>.
\<close>

theorem save_sends_escaped_label:
  "dispatched (save (selectType ''A&B'' (demo [GraphPointClick (clickAt 7 ''C3'')])))
     = [ADD_WAVE_EVENT ''A&amp;B'' 7 0 [''C3'']]
   \<and> ''A&amp;B'' \<noteq> ''A&B''
   \<and> dispatched (save (selectType ''SZ'' (demo [GraphPointClick (clickAt 7 ''C3'')])))
     = [ADD_WAVE_EVENT ''SZ'' 7 0 [''C3'']]"
proof -
  let ?s = "demo [GraphPointClick (clickAt 7 ''C3'')]"
  have a: "startTime ?s = Some 7" by (simp add: eval_defs)
  have b: "effectiveEndTime ?s = Some 7" by (simp add: eval_defs)
  have c: "\<not> (7::real) < 7" by simp
  have d: "selectedChannels ?s = [''C3'']" "dispatched ?s = []"
    by (simp_all add: eval_defs)
  from save_after_selectType [OF a b c, of "''A&B''"]
       save_after_selectType [OF a b c, of "''SZ''"] d
  show ?thesis by simp
qed

text \<open>
  C4. With no start time, \<^verbatim>\<open>save()\<close> does nothing: the state it returns is the
  state it was given, so no action is sent and the four fields are as before.
\<close>

theorem save_unset_noop:
  "startTime s = None \<Longrightarrow> save s = s"
  by (simp add: save_def)

theorem save_unset_noop_witness:
  "startTime (hiddenFormPage\<lparr>selectedChannels := [''C3''], allChannels := [''C3'', ''C4'']\<rparr>) = None
   \<and> save (hiddenFormPage\<lparr>selectedChannels := [''C3''], allChannels := [''C3'', ''C4'']\<rparr>)
       = hiddenFormPage\<lparr>selectedChannels := [''C3''], allChannels := [''C3'', ''C4'']\<rparr>"
proof -
  have h: "startTime (hiddenFormPage\<lparr>selectedChannels := [''C3''],
             allChannels := [''C3'', ''C4'']\<rparr>) = None"
    by (simp add: hiddenFormPage_def)
  from save_unset_noop [OF h] h show ?thesis by simp
qed

text \<open>
  C9. \<^verbatim>\<open>save()\<close> returns without sending when the end time is below the start
  time; and no sequence of calls on a fresh widget leads there: once the start
  time is set, the end time \<^verbatim>\<open>save()\<close> works with is not below it, and
  \<^verbatim>\<open>save()\<close> sends its action.
\<close>

theorem save_guard_unreachable:
  "(startTime s = Some t0 \<and> endTime s = Some t1 \<and> t1 < t0 \<longrightarrow> save s = s)
   \<and> (startTime (run ft cn qs evs page) = Some b \<longrightarrow>
        (\<exists>e. effectiveEndTime (run ft cn qs evs page) = Some e \<and> \<not> e < b
           \<and> dispatched (save (run ft cn qs evs page)) = dispatched (run ft cn qs evs page) @
                [ADD_WAVE_EVENT (dropdownInnerHTML (run ft cn qs evs page)) b (e - b)
                   (selectedChannels (run ft cn qs evs page))]))"
proof (intro conjI impI)
  assume "startTime s = Some t0 \<and> endTime s = Some t1 \<and> t1 < t0"
  then show "save s = s" by (simp add: save_def)
next
  let ?r = "run ft cn qs evs page"
  assume b: "startTime ?r = Some b"
  from effectiveEndTime_ordered [OF timesOrdered_run b]
  obtain e where e: "effectiveEndTime ?r = Some e" and le: "b \<le> e" by blast
  from le have n: "\<not> e < b" by simp
  from save_sends [OF b e n] have "dispatched (save ?r) = dispatched ?r @
                [ADD_WAVE_EVENT (dropdownInnerHTML ?r) b (e - b) (selectedChannels ?r)]"
    by (simp add: dispatched_close)
  with e n show "\<exists>e. effectiveEndTime ?r = Some e \<and> \<not> e < b
           \<and> dispatched (save ?r) = dispatched ?r @
                [ADD_WAVE_EVENT (dropdownInnerHTML ?r) b (e - b) (selectedChannels ?r)]"
    by blast
qed

theorem save_guard_unreachable_witness:
  "startTime (hiddenFormPage\<lparr>startTime := Some 9, endTime := Some 4\<rparr>) = Some 9
   \<and> endTime (hiddenFormPage\<lparr>startTime := Some 9, endTime := Some 4\<rparr>) = Some 4
   \<and> (4::real) < 9
   \<and> save (hiddenFormPage\<lparr>startTime := Some 9, endTime := Some 4\<rparr>)
       = hiddenFormPage\<lparr>startTime := Some 9, endTime := Some 4\<rparr>
   \<and> startTime (demo [GraphPointClick (clickAt 2 ''C3''), GraphPointClick (clickAt 1 ''C4'')]) = Some 2
   \<and> dispatched (save (demo [GraphPointClick (clickAt 2 ''C3''), GraphPointClick (clickAt 1 ''C4'')]))
       = [ADD_WAVE_EVENT ''SZ'' 2 0 [''C3'', ''C4'']]"
proof -
  let ?x = "hiddenFormPage\<lparr>startTime := Some 9, endTime := Some 4\<rparr>"
  let ?r = "demo [GraphPointClick (clickAt 2 ''C3''), GraphPointClick (clickAt 1 ''C4'')]"
  have x: "startTime ?x = Some 9 \<and> endTime ?x = Some 4 \<and> (4::real) < 9" by simp
  have r: "startTime ?r = Some 2" by (simp add: eval_defs)
  have r': "effectiveEndTime ?r = Some 2" "dropdownInnerHTML ?r = ''SZ''"
    "selectedChannels ?r = [''C3'', ''C4'']" "dispatched ?r = []"
    by (simp_all add: eval_defs)
  from save_guard_unreachable [of ?x 9 4 noFormat idsAsNames domQuerySelector
      "ChannelNames (channelUpdate [''C3'', ''C4'']) #
         [GraphPointClick (clickAt 2 ''C3''), GraphPointClick (clickAt 1 ''C4'')]"
      hiddenFormPage 2, folded demo_def]
    x r r'
  show ?thesis by auto
qed

subsection \<open>Clicks after the first\<close>






subsection \<open>Closing\<close>

text \<open>
  C7. After \<^verbatim>\<open>close()\<close> both times are null and the selection is empty, as they
  are in a freshly constructed widget on any page; and closing twice gives the same
  state, page included, as closing once.
\<close>

theorem close_resets_idempotent:
  "startTime (close s) = None \<and> endTime (close s) = None \<and> selectedChannels (close s) = []
   \<and> startTime (close s) = startTime (constructor page)
   \<and> endTime (close s) = endTime (constructor page)
   \<and> selectedChannels (close s) = selectedChannels (constructor page)
   \<and> close (close s) = close s"
  by (simp add: close_def toggleAllChannelCheckboxes_def constructor_def toggleMDLCheckbox_def)

theorem close_resets_idempotent_witness:
  "selectedChannels (demo [GraphPointClick (clickAt 1 ''C3''), GraphPointClick (clickAt 2 ''C4'')])
     = [''C3'', ''C4'']
   \<and> startTime (close (demo [GraphPointClick (clickAt 1 ''C3''), GraphPointClick (clickAt 2 ''C4'')])) = None
   \<and> endTime (close (demo [GraphPointClick (clickAt 1 ''C3''), GraphPointClick (clickAt 2 ''C4'')])) = None
   \<and> selectedChannels (close (demo [GraphPointClick (clickAt 1 ''C3''), GraphPointClick (clickAt 2 ''C4'')])) = []
   \<and> formHidden (close (demo [GraphPointClick (clickAt 1 ''C3''), GraphPointClick (clickAt 2 ''C4'')]))
   \<and> close (close (demo [GraphPointClick (clickAt 1 ''C3''), GraphPointClick (clickAt 2 ''C4'')]))
       = close (demo [GraphPointClick (clickAt 1 ''C3''), GraphPointClick (clickAt 2 ''C4'')])"
proof -
  let ?s = "demo [GraphPointClick (clickAt 1 ''C3''), GraphPointClick (clickAt 2 ''C4'')]"
  have a: "selectedChannels ?s = [''C3'', ''C4'']" by (simp add: eval_defs)
  have b: "formHidden (close ?s)" by (simp add: close_def toggleAllChannelCheckboxes_def)
  from close_resets_idempotent [of ?s hiddenFormPage] a b show ?thesis by simp
qed

subsection \<open>The checkbox for all channels\<close>

text \<open>
  C8. \<^verbatim>\<open>toggleAllChannels\<close> with the box checked adds every name of \<open>allChannels\<close>
  to the selection and keeps what was selected; with the box unchecked it empties
  the selection; checking and then unchecking leaves the selection empty whatever
  it was before.
\<close>

theorem toggleAllChannels_selection:
  "set (selectedChannels (toggleAllChannels True s)) = set (selectedChannels s) \<union> set (allChannels s)
   \<and> selectedChannels (toggleAllChannels False s) = []
   \<and> selectedChannels (toggleAllChannels False (toggleAllChannels True s)) = []"
  by (simp add: toggleAllChannels_def toggleAllChannelCheckboxes_def set_foldl_setAdd)

theorem toggleAllChannels_selection_witness:
  "selectedChannels (demo [GraphPointClick (clickAt 1 ''C4'')]) = [''C4'']
   \<and> allChannels (demo [GraphPointClick (clickAt 1 ''C4'')]) = [''C3'', ''C4'']
   \<and> selectedChannels (toggleAllChannels True (demo [GraphPointClick (clickAt 1 ''C4'')])) = [''C4'', ''C3'']
   \<and> selectedChannels (toggleAllChannels False (demo [GraphPointClick (clickAt 1 ''C4'')])) = []
   \<and> selectedChannels (toggleAllChannels False
         (toggleAllChannels True (demo [GraphPointClick (clickAt 1 ''C4'')]))) = []"
proof -
  let ?s = "demo [GraphPointClick (clickAt 1 ''C4'')]"
  have a: "selectedChannels ?s = [''C4'']" "allChannels ?s = [''C3'', ''C4'']"
    by (simp_all add: eval_defs)
  have b: "selectedChannels (toggleAllChannels True ?s) = [''C4'', ''C3'']"
    by (simp add: toggleAllChannels_def toggleAllChannelCheckboxes_def a setAdd_def setHas_def)
  from toggleAllChannels_selection [of ?s] a b show ?thesis by simp
qed

subsection \<open>Placing the form\<close>

text \<open>
  C5. With the form's width and height read as 330 and 487 when they measure 0,
  the form is placed at \<open>left = xPos - width - 20\<close>, \<open>top = yPos\<close>; when that
  \<open>left\<close> is negative, at \<open>left = xPos + 10\<close>, \<open>top = yPos + 80\<close> instead. The
  \<open>left\<close> is final; the \<open>top\<close> is final unless it exceeds
  \<open>innerHeight - height - 100\<close>. A click at (50, 100) with a form of 330 by 487,
  measured or by default, in a window 800 high puts the form at (60, 180).
\<close>

theorem form_position_left_top:
  "(let w = (if offsetWidth s = 0 then 330 else offsetWidth s);
        h = (if offsetHeight s = 0 then 487 else offsetHeight s);
        s' = setWaveEventFormPosition x y s
    in (\<not> x - w - 20 < 0 \<longrightarrow>
          formLeft s' = x - w - 20 \<and> (\<not> y > innerHeight s - h - 100 \<longrightarrow> formTop s' = y))
     \<and> (x - w - 20 < 0 \<longrightarrow>
          formLeft s' = x + 10 \<and> (\<not> y + 80 > innerHeight s - h - 100 \<longrightarrow> formTop s' = y + 80)))
   \<and> formLeft (setWaveEventFormPosition 50 100
          (s\<lparr>offsetWidth := 330, offsetHeight := 487, innerHeight := 800\<rparr>)) = 60
   \<and> formTop (setWaveEventFormPosition 50 100
          (s\<lparr>offsetWidth := 330, offsetHeight := 487, innerHeight := 800\<rparr>)) = 180
   \<and> formLeft (setWaveEventFormPosition 50 100
          (s\<lparr>offsetWidth := 0, offsetHeight := 0, innerHeight := 800\<rparr>)) = 60
   \<and> formTop (setWaveEventFormPosition 50 100
          (s\<lparr>offsetWidth := 0, offsetHeight := 0, innerHeight := 800\<rparr>)) = 180"
  by (simp add: setWaveEventFormPosition_def orDefault_def defaultFormWidth_def
      defaultFormHeight_def Let_def)

theorem form_position_left_top_witness:
  "50 - (330::real) - 20 < 0 \<and> \<not> (100::real) + 80 > innerHeight hiddenFormPage - 487 - 100
   \<and> formLeft (setWaveEventFormPosition 50 100 hiddenFormPage) = 60
   \<and> formTop (setWaveEventFormPosition 50 100 hiddenFormPage) = 180
   \<and> \<not> 400 - (330::real) - 20 < 0 \<and> \<not> (100::real) > innerHeight hiddenFormPage - 487 - 100
   \<and> formLeft (setWaveEventFormPosition 400 100 hiddenFormPage) = 50
   \<and> formTop (setWaveEventFormPosition 400 100 hiddenFormPage) = 100"
proof -
  have w: "offsetWidth hiddenFormPage = 0" "offsetHeight hiddenFormPage = 0"
    "innerHeight hiddenFormPage = 800"
    by (simp_all add: hiddenFormPage_def)
  from form_position_left_top [of hiddenFormPage 50 100]
       form_position_left_top [of hiddenFormPage 400 100] w
  show ?thesis by (simp add: Let_def)
qed

text \<open>
  C6, as the code has it. When the top computed so far exceeds
  \<open>innerHeight - height - 100\<close>, the final top is the click's \<open>yPos\<close> moved up by
  \<open>height + 20\<close> when the form stayed left of the click, and by \<open>height + 200\<close>
  when it was moved to the right of the click. In the first case \<open>yPos\<close> is the
  top computed so far; in the second the top computed so far is \<open>yPos + 80\<close>, so
  the form ends \<open>height + 280\<close> above it.
\<close>

theorem form_position_overflow:
  "(let w = (if offsetWidth s = 0 then 330 else offsetWidth s);
        h = (if offsetHeight s = 0 then 487 else offsetHeight s);
        s' = setWaveEventFormPosition x y s
    in (\<not> x - w - 20 < 0 \<and> y > innerHeight s - h - 100 \<longrightarrow> formTop s' = y - (h + 20))
     \<and> (x - w - 20 < 0 \<and> y + 80 > innerHeight s - h - 100 \<longrightarrow>
          formTop s' = y - (h + 200) \<and> formTop s' = (y + 80) - (h + 280)))"
  by (simp add: setWaveEventFormPosition_def orDefault_def defaultFormWidth_def
      defaultFormHeight_def Let_def)

theorem form_position_overflow_witness:
  "\<not> 400 - (330::real) - 20 < 0 \<and> (700::real) > innerHeight hiddenFormPage - 487 - 100
   \<and> formTop (setWaveEventFormPosition 400 700 hiddenFormPage) = 700 - (487 + 20)
   \<and> 50 - (330::real) - 20 < 0 \<and> (700::real) + 80 > innerHeight hiddenFormPage - 487 - 100
   \<and> formTop (setWaveEventFormPosition 50 700 hiddenFormPage) = 700 - (487 + 200)"
proof -
  have w: "offsetWidth hiddenFormPage = 0" "offsetHeight hiddenFormPage = 0"
    "innerHeight hiddenFormPage = 800"
    by (simp_all add: hiddenFormPage_def)
  from form_position_overflow [of hiddenFormPage 400 700]
       form_position_overflow [of hiddenFormPage 50 700] w
  show ?thesis by (simp add: Let_def)
qed

text \<open>
  C6, as the claim states it, fails for a form moved to the right: a click at
  (50, 700) with a form of 330 by 487 in a window 800 high first gives the top 780,
  which exceeds 213; the final top is 13, not 780 - (487 + 200) = 93.
\<close>

theorem form_position_overflow_counterexample:
  "50 - (330::real) - 20 < 0
   \<and> (700::real) + 80 > innerHeight (hiddenFormPage\<lparr>offsetWidth := 330, offsetHeight := 487\<rparr>) - 487 - 100
   \<and> formTop (setWaveEventFormPosition 50 700 (hiddenFormPage\<lparr>offsetWidth := 330, offsetHeight := 487\<rparr>)) = 13
   \<and> (700 + 80) - (487 + 200) = (93::real)
   \<and> formTop (setWaveEventFormPosition 50 700 (hiddenFormPage\<lparr>offsetWidth := 330, offsetHeight := 487\<rparr>))
       \<noteq> (700 + 80) - (487 + 200)"
  by (simp add: setWaveEventFormPosition_def orDefault_def defaultFormWidth_def
      defaultFormHeight_def Let_def hiddenFormPage_def)

subsection \<open>A new list of channels\<close>

lemma handleChannelNames_fields:
  assumes "channelIds st = Some ids" and "indexChannelMap st = Some m"
  shows "allChannels (handleChannelNames cn st s) = cn ids m"
    and "selectedChannels (handleChannelNames cn st s) = selectedChannels s"
    and "startTime (handleChannelNames cn st s) = startTime s"
    and "endTime (handleChannelNames cn st s) = endTime s"
    and "dropdownInnerHTML (handleChannelNames cn st s) = dropdownInnerHTML s"
    and "dispatched (handleChannelNames cn st s) = dispatched s"
  using assms by (simp_all add: handleChannelNames_def Let_def)

text \<open>
  C10. When the snapshot has both \<^verbatim>\<open>channelIds\<close> and \<^verbatim>\<open>indexChannelMap\<close>,
  \<^verbatim>\<open>handleChannelNames\<close> replaces \<open>allChannels\<close> by the names computed from them
  and leaves the selection and the two times as they were. A \<^verbatim>\<open>save()\<close> right
  after it therefore sends the channels selected before the update, whether or not
  the new list has them.
\<close>

theorem handleChannelNames_keeps_selection:
  assumes "channelIds st = Some ids" and "indexChannelMap st = Some m"
  shows "allChannels (handleChannelNames cn st s) = cn ids m
       \<and> selectedChannels (handleChannelNames cn st s) = selectedChannels s
       \<and> startTime (handleChannelNames cn st s) = startTime s
       \<and> endTime (handleChannelNames cn st s) = endTime s
       \<and> (\<forall>t0 t1. startTime s = Some t0 \<longrightarrow> effectiveEndTime s = Some t1 \<longrightarrow> \<not> t1 < t0 \<longrightarrow>
            dispatched (save (handleChannelNames cn st s)) = dispatched s @
              [ADD_WAVE_EVENT (dropdownInnerHTML s) t0 (t1 - t0) (selectedChannels s)])"
proof -
  let ?s' = "handleChannelNames cn st s"
  note f = handleChannelNames_fields [OF assms, of cn s]
  have "dispatched (save ?s') = dispatched s @
          [ADD_WAVE_EVENT (dropdownInnerHTML s) t0 (t1 - t0) (selectedChannels s)]"
    if a: "startTime s = Some t0" and b: "effectiveEndTime s = Some t1" and c: "\<not> t1 < t0"
    for t0 t1
  proof -
    from a f have a': "startTime ?s' = Some t0" by simp
    from b f have b': "effectiveEndTime ?s' = Some t1"
      by (simp add: effectiveEndTime_def split: option.splits)
    from save_sends [OF a' b' c] f show ?thesis by (simp add: dispatched_close)
  qed
  with f show ?thesis by blast
qed

theorem handleChannelNames_keeps_selection_witness:
  "channelIds (channelUpdate [''O1'', ''O2'']) = Some [''O1'', ''O2'']
   \<and> indexChannelMap (channelUpdate [''O1'', ''O2'']) = Some []
   \<and> allChannels (handleChannelNames idsAsNames (channelUpdate [''O1'', ''O2''])
        (demo [GraphPointClick (clickAt 4 ''C3'')]))
       = [''O1'', ''O2'']
   \<and> selectedChannels (handleChannelNames idsAsNames (channelUpdate [''O1'', ''O2''])
        (demo [GraphPointClick (clickAt 4 ''C3'')]))
       = [''C3'']
   \<and> ''C3'' \<notin> set [''O1'', ''O2'']
   \<and> dispatched (save (handleChannelNames idsAsNames (channelUpdate [''O1'', ''O2''])
        (demo [GraphPointClick (clickAt 4 ''C3'')])))
       = [ADD_WAVE_EVENT ''SZ'' 4 0 [''C3'']]"
proof -
  let ?s = "demo [GraphPointClick (clickAt 4 ''C3'')]"
  have a: "channelIds (channelUpdate [''O1'', ''O2'']) = Some [''O1'', ''O2'']"
    and b: "indexChannelMap (channelUpdate [''O1'', ''O2'']) = Some []"
    by (simp_all add: channelUpdate_def)
  have c: "startTime ?s = Some 4" "effectiveEndTime ?s = Some 4" "selectedChannels ?s = [''C3'']"
    "dropdownInnerHTML ?s = ''SZ''" "dispatched ?s = []"
    by (simp_all add: eval_defs)
  from handleChannelNames_keeps_selection [OF a b, of idsAsNames ?s] a b c
  show ?thesis by (simp add: idsAsNames_def)
qed

end
